theory Spec2Isabelle
  imports Complex_Main
begin

text \<open>
  The orbit engine: a sun, planets under its gravity, and a panel to select, hold, lock and
  edit them. The definitions follow the simulator component in its variant with colours,
  locks and resizing on \<open>Done\<close>; where the variant with live edits differs, its handlers
  are given next to it.
\<close>

section \<open>JavaScript numbers\<close>

text \<open>
  The simulator computes with JavaScript numbers. A number is modelled as a finite real or
  one of the three special values of IEEE 754; the arithmetic on the special values follows
  the standard (a division by zero gives an infinity or \<open>NaN\<close>, it never raises), and the
  arithmetic on finite values is exact: rounding, overflow and the sign of zero are outside
  the model (a zero divisor counts as \<open>+0\<close>, which is what \<open>Math.sqrt\<close> and a product of
  squares return). What is stated of the program below is chosen so that it does not depend
  on them: it is about which bodies are in the world, about flags and the selection, about
  \<open>NaN\<close> and the infinities, or about values that doubles compute exactly; what holds in
  exact arithmetic only is marked as such.
\<close>

datatype number = Fin real | PInf | NInf | NaN

fun sgn_num :: "number \<Rightarrow> real" where
  "sgn_num (Fin a) = sgn a"
| "sgn_num PInf = 1"
| "sgn_num NInf = - 1"
| "sgn_num NaN = 0"

definition signed_inf :: "real \<Rightarrow> number" where
  "signed_inf s = (if 0 < s then PInf else if s < 0 then NInf else NaN)"

instantiation number :: "{plus, minus, uminus, times, inverse, abs, ord}"
begin

fun uminus_number :: "number \<Rightarrow> number" where
  "uminus_number (Fin a) = Fin (- a)"
| "uminus_number PInf = NInf"
| "uminus_number NInf = PInf"
| "uminus_number NaN = NaN"

fun plus_number :: "number \<Rightarrow> number \<Rightarrow> number" where
  "plus_number (Fin a) (Fin b) = Fin (a + b)"
| "plus_number NaN _ = NaN"
| "plus_number _ NaN = NaN"
| "plus_number PInf NInf = NaN"
| "plus_number NInf PInf = NaN"
| "plus_number PInf _ = PInf"
| "plus_number _ PInf = PInf"
| "plus_number NInf _ = NInf"
| "plus_number _ NInf = NInf"

definition minus_number :: "number \<Rightarrow> number \<Rightarrow> number" where
  "minus_number a b = a + (- b)"

fun times_number :: "number \<Rightarrow> number \<Rightarrow> number" where
  "times_number (Fin a) (Fin b) = Fin (a * b)"
| "times_number NaN _ = NaN"
| "times_number _ NaN = NaN"
| "times_number a b = signed_inf (sgn_num a * sgn_num b)"

fun divide_number :: "number \<Rightarrow> number \<Rightarrow> number" where
  "divide_number NaN _ = NaN"
| "divide_number _ NaN = NaN"
| "divide_number (Fin a) (Fin b) = (if b = 0 then signed_inf (sgn a) else Fin (a / b))"
| "divide_number (Fin a) _ = Fin 0"
| "divide_number a (Fin b) = signed_inf (sgn_num a * (if b < 0 then - 1 else 1))"
| "divide_number _ _ = NaN"

definition inverse_number :: "number \<Rightarrow> number" where
  "inverse_number a = divide (Fin 1) a"

fun abs_number :: "number \<Rightarrow> number" where
  "abs_number (Fin a) = Fin \<bar>a\<bar>"
| "abs_number NaN = NaN"
| "abs_number _ = PInf"

fun less_number :: "number \<Rightarrow> number \<Rightarrow> bool" where
  "less_number (Fin a) (Fin b) = (a < b)"
| "less_number NaN _ = False"
| "less_number _ NaN = False"
| "less_number _ NInf = False"
| "less_number PInf _ = False"
| "less_number _ _ = True"

definition less_eq_number :: "number \<Rightarrow> number \<Rightarrow> bool" where
  "less_eq_number a b = (a < b \<or> (a = b \<and> a \<noteq> NaN))"

instance ..

end

text \<open>\<open>a === b\<close> on numbers: \<open>NaN\<close> is not equal to itself.\<close>

definition strict_eq :: "number \<Rightarrow> number \<Rightarrow> bool" where
  "strict_eq a b = (a = b \<and> a \<noteq> NaN)"

text \<open>The truth value of a number in a condition or under \<open>||\<close>: zero and \<open>NaN\<close> are falsy.\<close>

fun truthy :: "number \<Rightarrow> bool" where
  "truthy (Fin a) = (a \<noteq> 0)"
| "truthy NaN = False"
| "truthy _ = True"


fun Math_sqrt :: "number \<Rightarrow> number" where
  "Math_sqrt (Fin a) = (if a < 0 then NaN else Fin (sqrt a))"
| "Math_sqrt PInf = PInf"
| "Math_sqrt _ = NaN"

fun Math_cos :: "number \<Rightarrow> number" where
  "Math_cos (Fin a) = Fin (cos a)"
| "Math_cos _ = NaN"

fun Math_sin :: "number \<Rightarrow> number" where
  "Math_sin (Fin a) = Fin (sin a)"
| "Math_sin _ = NaN"

text \<open>
  \<open>Math.atan2(y, x)\<close>: the angle of the point \<open>(x, y)\<close> in \<open>(-\<pi>, \<pi>]\<close>, with
  \<open>Math.atan2(0, 0) = 0\<close>.
\<close>

definition atan2_real :: "real \<Rightarrow> real \<Rightarrow> real" where
  "atan2_real b a =
     (if 0 < a then arctan (b / a)
      else if a < 0 then (if 0 \<le> b then arctan (b / a) + pi else arctan (b / a) - pi)
      else if 0 < b then pi / 2
      else if b < 0 then - (pi / 2)
      else 0)"

fun Math_atan2 :: "number \<Rightarrow> number \<Rightarrow> number" where
  "Math_atan2 NaN _ = NaN"
| "Math_atan2 _ NaN = NaN"
| "Math_atan2 (Fin b) (Fin a) = Fin (atan2_real b a)"
| "Math_atan2 (Fin b) PInf = Fin 0"
| "Math_atan2 (Fin b) NInf = Fin (if b < 0 then - pi else pi)"
| "Math_atan2 PInf (Fin a) = Fin (pi / 2)"
| "Math_atan2 NInf (Fin a) = Fin (- (pi / 2))"
| "Math_atan2 PInf PInf = Fin (pi / 4)"
| "Math_atan2 PInf NInf = Fin (3 * pi / 4)"
| "Math_atan2 NInf PInf = Fin (- (pi / 4))"
| "Math_atan2 NInf NInf = Fin (- (3 * pi / 4))"

section \<open>Bodies of the physics engine\<close>

text \<open>
  \<open>ExtendedBody\<close>: the fields of a \<open>Matter.Body\<close> that the simulator reads or writes,
  and the fields the simulator adds. A vector \<open>{x, y}\<close> is a pair. An optional boolean that
  is only tested for truth is a \<open>bool\<close> (\<open>undefined\<close> is \<open>False\<close>).
\<close>

type_synonym vector = "number \<times> number"

record body =
  body_id :: nat
  position :: vector
  velocity :: vector
  mass :: number
  inverseMass :: number
  density :: number
  area :: number
  circleRadius :: "number option"
  isStatic :: bool
  isSun :: bool
  isLocked :: bool
  lockedVelocity :: "vector option"
  name :: string
  color :: string
  fillStyle :: string

text \<open>
  The three operations of the engine that the simulator calls on a body.
  \<open>Matter.Body.setVelocity\<close> is modelled as storing the velocity: the engine sets
  \<open>positionPrev\<close> to the position minus the velocity times the time scale of the body and
  recomputes the velocity from the position and \<open>positionPrev\<close>, which for a finite
  position is the given velocity up to rounding, and exactly so for the zero velocity. No
  statement below about a claim rests on more than that. \<open>Matter.Body.setMass\<close> stores the mass
  and derives the inverse mass and the density from it. \<open>Matter.Body.scale\<close> scales the
  shape about the body's position: the area is that of the scaled shape, the mass is set to
  density times the new area, and the radius of a circle follows a uniform scale (a
  non-uniform scale makes it \<open>null\<close>). Vertices and rotational inertia are not modelled.
\<close>

definition Body_setVelocity :: "body \<Rightarrow> vector \<Rightarrow> body" where
  "Body_setVelocity b v = b\<lparr>velocity := v\<rparr>"

definition Body_setMass :: "body \<Rightarrow> number \<Rightarrow> body" where
  "Body_setMass b m = b\<lparr>mass := m, inverseMass := Fin 1 / m, density := m / area b\<rparr>"

definition Body_scale :: "body \<Rightarrow> number \<Rightarrow> number \<Rightarrow> body" where
  "Body_scale b scaleX scaleY =
     (let a = area b * \<bar>scaleX * scaleY\<bar>;
          b1 = Body_setMass (b\<lparr>area := a\<rparr>) (density b * a)
      in case circleRadius b1 of
           None \<Rightarrow> b1
         | Some r \<Rightarrow>
             if truthy r
             then (if strict_eq scaleX scaleY then b1\<lparr>circleRadius := Some (r * scaleX)\<rparr>
                   else b1\<lparr>circleRadius := None\<rparr>)
             else b1)"

section \<open>Orbital diagnostics\<close>

definition GRAVITY_CONSTANT :: number where
  "GRAVITY_CONSTANT = Fin (1 / 2)"

definition SUN_MASS :: number where
  "SUN_MASS = Fin 10000"

definition SUN_RADIUS :: number where
  "SUN_RADIUS = Fin 40"

record orbital =
  radial :: number
  tangential :: number

definition calculateOrbitalVelocity :: "body \<Rightarrow> body \<Rightarrow> orbital" where
  "calculateOrbitalVelocity b sun =
     (let dx = fst (position b) - fst (position sun);
          dy = snd (position b) - snd (position sun);
          distance = Math_sqrt (dx * dx + dy * dy)
      in if isLocked b \<or> isStatic b then \<lparr>radial = Fin 0, tangential = Fin 0\<rparr>
         else
           (let radialX = dx / distance;
                radialY = dy / distance;
                radialVelocity = fst (velocity b) * radialX + snd (velocity b) * radialY;
                tangentialVelocity = fst (velocity b) * radialY - snd (velocity b) * radialX
            in \<lparr>radial = radialVelocity, tangential = tangentialVelocity\<rparr>))"


text \<open>
  The gravity update of one body in the \<open>beforeUpdate\<close> handler: the new velocity is the
  body's current velocity plus the acceleration toward the sun.
\<close>

definition gravity_update :: "body \<Rightarrow> body \<Rightarrow> body" where
  "gravity_update sun b =
     (let dx = fst (position sun) - fst (position b);
          dy = snd (position sun) - snd (position b);
          distance = Math_sqrt (dx * dx + dy * dy);
          force = (GRAVITY_CONSTANT * mass sun * mass b) / (distance * distance);
          angle = Math_atan2 dy dx;
          currentVx = fst (velocity b);
          currentVy = snd (velocity b);
          acceleration = force / mass b;
          accelerationX = Math_cos angle * acceleration;
          accelerationY = Math_sin angle * acceleration
      in Body_setVelocity b (currentVx + accelerationX, currentVy + accelerationY))"

section \<open>The world and the state of the component\<close>

text \<open>
  Bodies are objects that the handlers mutate in place and compare by identity, so the world
  is a list of references (\<open>engine.world.bodies\<close>, in insertion order) and a store that
  gives each reference its body. \<open>selected\<close> is \<open>CelestialBodyProperties\<close>, the snapshot
  shown in the panel; \<open>editing\<close> is the buffer of the edit form. The selection is there
  twice, as in the component: \<open>selectedBody\<close> is the state, which the handlers set, and
  \<open>selectedBodyRef\<close> is the reference that the handlers of the engine read; an effect
  copies the state into the reference after each render.
\<close>

type_synonym ref = nat

record selected =
  sel_id :: nat
  sel_name :: string
  sel_mass :: number
  sel_size :: number
  sel_color :: string
  sel_orbitalVelocity :: orbital
  sel_isSun :: bool
  sel_isLocked :: bool

record editing =
  edit_name :: string
  edit_mass :: number
  edit_size :: number
  edit_color :: string
  edit_isLocked :: bool

record sim =
  bodies :: "ref list"
  heap :: "ref \<Rightarrow> body"
  selectedBody :: "selected option"
  selectedBodyRef :: "selected option"
  isEditing :: bool
  editingValues :: "editing option"
  isHoldingPlanet :: bool

definition sync_refs :: "sim \<Rightarrow> sim" where
  "sync_refs s = s\<lparr>selectedBodyRef := selectedBody s\<rparr>"

definition find_sun :: "sim \<Rightarrow> ref option" where
  "find_sun s = List.find (\<lambda>r. isSun (heap s r)) (bodies s)"

definition find_by_id :: "sim \<Rightarrow> nat \<Rightarrow> ref option" where
  "find_by_id s i = List.find (\<lambda>r. body_id (heap s r) = i) (bodies s)"

text \<open>\<open>Matter.World.remove\<close>: the body leaves the list of the world; the object stays.\<close>

definition World_remove :: "sim \<Rightarrow> ref \<Rightarrow> sim" where
  "World_remove s r = s\<lparr>bodies := remove1 r (bodies s)\<rparr>"

text \<open>
  \<open>if (selectedBodyRef.current && selectedBodyRef.current.id === body.id)
  setSelectedBody(null)\<close>, with \<open>selRef\<close> the value of the reference.
\<close>

definition clear_if_selected :: "selected option \<Rightarrow> ref \<Rightarrow> sim \<Rightarrow> sim" where
  "clear_if_selected selRef r s =
     (case selRef of
        None \<Rightarrow> s
      | Some sel \<Rightarrow> if sel_id sel = body_id (heap s r) then s\<lparr>selectedBody := None\<rparr> else s)"

section \<open>The simulation step: \<open>beforeUpdate\<close>\<close>

text \<open>First pass over \<open>allBodies\<close>: gravity on every body but the sun and the locked ones.\<close>

definition apply_gravity :: "ref \<Rightarrow> ref \<Rightarrow> (ref \<Rightarrow> body) \<Rightarrow> (ref \<Rightarrow> body)" where
  "apply_gravity sun r h =
     (if r = sun then h
      else if isLocked (h r) then h
      else h(r := gravity_update (h sun) (h r)))"

text \<open>
  Second pass: a locked body gets velocity zero; a body that is neither the sun nor locked
  and is more than 5000 away from the sun is removed.
\<close>

definition distance_from :: "body \<Rightarrow> body \<Rightarrow> number" where
  "distance_from sun b =
     (let dx = fst (position b) - fst (position sun);
          dy = snd (position b) - snd (position sun)
      in Math_sqrt (dx * dx + dy * dy))"

definition reset_and_cull :: "selected option \<Rightarrow> ref \<Rightarrow> ref \<Rightarrow> sim \<Rightarrow> sim" where
  "reset_and_cull selRef sun r s =
     (let s1 = (if isLocked (heap s r)
                then s\<lparr>heap := (heap s)(r := Body_setVelocity (heap s r) (Fin 0, Fin 0))\<rparr>
                else s)
      in if \<not> isSun (heap s1 r) \<and> \<not> isLocked (heap s1 r)
         then (if Fin 5000 < distance_from (heap s1 sun) (heap s1 r)
               then clear_if_selected selRef r (World_remove s1 r)
               else s1)
         else s1)"

text \<open>
  Last part of the handler: while the button is down, the body under the pointer becomes the
  selection unless it is the sun or already selected. The hit test is the engine's
  (\<open>Matter.Query.point\<close>); its first result enters as \<open>underMouse\<close>, which is \<open>None\<close> when
  the button is up or no body is hit.
\<close>

definition size_of :: "body \<Rightarrow> number" where
  "size_of b = (case circleRadius b of None \<Rightarrow> NaN | Some r \<Rightarrow> r * Fin 2)"

definition hover_select :: "selected option \<Rightarrow> ref \<Rightarrow> ref option \<Rightarrow> sim \<Rightarrow> sim" where
  "hover_select selRef sun underMouse s =
     (case underMouse of
        None \<Rightarrow> s
      | Some r \<Rightarrow>
          (let bodyUnderMouse = heap s r
           in if \<not> isSun bodyUnderMouse \<and>
                 (case selRef of None \<Rightarrow> True | Some sel \<Rightarrow> sel_id sel \<noteq> body_id bodyUnderMouse)
              then s\<lparr>selectedBody := Some
                     \<lparr>sel_id = body_id bodyUnderMouse,
                      sel_name = (if name bodyUnderMouse = [] then ''Unknown'' else name bodyUnderMouse),
                      sel_mass = mass bodyUnderMouse,
                      sel_size = size_of bodyUnderMouse,
                      sel_color = (if fillStyle bodyUnderMouse = [] then ''?''
                                   else fillStyle bodyUnderMouse),
                      sel_orbitalVelocity = calculateOrbitalVelocity bodyUnderMouse (heap s sun),
                      sel_isSun = isSun bodyUnderMouse,
                      sel_isLocked = False\<rparr>\<rparr>
              else s))"

definition gravity_pass :: "ref \<Rightarrow> sim \<Rightarrow> sim" where
  "gravity_pass sun s = s\<lparr>heap := fold (apply_gravity sun) (bodies s) (heap s)\<rparr>"

definition beforeUpdate :: "ref option \<Rightarrow> sim \<Rightarrow> sim" where
  "beforeUpdate underMouse s =
     (case find_sun s of
        None \<Rightarrow> s
      | Some sun \<Rightarrow>
          (let allBodies = bodies s;
               s1 = gravity_pass sun s;
               s2 = fold (reset_and_cull (selectedBodyRef s) sun) allBodies s1
           in hover_select (selectedBodyRef s) sun underMouse s2))"

section \<open>Collision handlers\<close>

text \<open>
  \<open>collisionStart\<close>: of a pair with exactly one sun, the other body is removed. The pairs
  are the engine's; they enter as a list of pairs of references.
\<close>

definition collision_start_pair :: "selected option \<Rightarrow> ref \<times> ref \<Rightarrow> sim \<Rightarrow> sim" where
  "collision_start_pair selRef pair s =
     (let bodyA = fst pair; bodyB = snd pair
      in if isSun (heap s bodyA) \<and> \<not> isSun (heap s bodyB)
         then clear_if_selected selRef bodyB (World_remove s bodyB)
         else if isSun (heap s bodyB) \<and> \<not> isSun (heap s bodyA)
         then clear_if_selected selRef bodyA (World_remove s bodyA)
         else s)"

definition collisionStart :: "(ref \<times> ref) list \<Rightarrow> sim \<Rightarrow> sim" where
  "collisionStart pairs s = fold (collision_start_pair (selectedBodyRef s)) pairs s"

text \<open>\<open>collisionActive\<close>: the locked bodies of every pair get velocity zero.\<close>

definition keep_still :: "ref \<Rightarrow> (ref \<Rightarrow> body) \<Rightarrow> (ref \<Rightarrow> body)" where
  "keep_still r h = (if isLocked (h r) then h(r := Body_setVelocity (h r) (Fin 0, Fin 0)) else h)"

definition collision_active_pair :: "ref \<times> ref \<Rightarrow> (ref \<Rightarrow> body) \<Rightarrow> (ref \<Rightarrow> body)" where
  "collision_active_pair pair h = keep_still (snd pair) (keep_still (fst pair) h)"

definition collisionActive :: "(ref \<times> ref) list \<Rightarrow> sim \<Rightarrow> sim" where
  "collisionActive pairs s = s\<lparr>heap := fold collision_active_pair pairs (heap s)\<rparr>"

section \<open>One update of the engine\<close>

text \<open>
  \<open>Matter.Engine.update\<close> as the handlers see it: it triggers \<open>beforeUpdate\<close>, integrates
  the bodies and solves the pointer constraint, detects the collisions and triggers
  \<open>collisionStart\<close> with the pairs that are new, resolves the collisions, and triggers
  \<open>collisionActive\<close> with the pairs that were colliding before. The engine's own work is
  not the simulator's code: it enters as the two transformations of the store
  \<open>integrate\<close> and \<open>resolve\<close> and the two lists of pairs.
\<close>

record engine_work =
  pointer_body :: "ref option"
  integrate :: "(ref \<Rightarrow> body) \<Rightarrow> (ref \<Rightarrow> body)"
  started :: "(ref \<times> ref) list"
  resolve :: "(ref \<Rightarrow> body) \<Rightarrow> (ref \<Rightarrow> body)"
  active :: "(ref \<times> ref) list"

definition Engine_update :: "engine_work \<Rightarrow> sim \<Rightarrow> sim" where
  "Engine_update w s =
     (let s1 = beforeUpdate (pointer_body w) s;
          s2 = s1\<lparr>heap := integrate w (heap s1)\<rparr>;
          s3 = collisionStart (started w) s2;
          s4 = s3\<lparr>heap := resolve w (heap s3)\<rparr>
      in collisionActive (active w) s4)"

section \<open>The edit form\<close>

text \<open>
  The lock branch, the same in the \<open>Done\<close> handler and in the checkbox handler of the
  variant with live edits: locking saves the velocity and zeroes it, unlocking restores a
  saved velocity.
\<close>

definition set_locked :: "bool \<Rightarrow> body \<Rightarrow> body" where
  "set_locked locked b =
     (if locked
      then Body_setVelocity (b\<lparr>lockedVelocity := Some (velocity b), isLocked := True\<rparr>) (Fin 0, Fin 0)
      else (let b1 = b\<lparr>isLocked := False\<rparr>
            in case lockedVelocity b1 of
                 None \<Rightarrow> b1
               | Some v \<Rightarrow> (Body_setVelocity b1 v)\<lparr>lockedVelocity := None\<rparr>))"

text \<open>\<open>body.circleRadius || body.radius || 1\<close>; a \<open>Matter.Body\<close> has no field \<open>radius\<close>.\<close>

definition old_radius :: "body \<Rightarrow> number" where
  "old_radius b = (case circleRadius b of None \<Rightarrow> Fin 1 | Some r \<Rightarrow> if truthy r then r else Fin 1)"

text \<open>
  The \<open>Done\<close> button of the variant with colours: all buffered fields are applied to the body
  at once. The mass is restored from \<open>body.mass\<close>, read after the shape was scaled.
\<close>

definition commit_edit :: "selected \<Rightarrow> editing \<Rightarrow> body \<Rightarrow> body" where
  "commit_edit sel ev b =
     (let b1 = b\<lparr>name := edit_name ev\<rparr>;
          b2 = (if sel_isSun sel
                then (Body_setMass b1 (edit_mass ev))\<lparr>inverseMass := Fin 1 / edit_mass ev\<rparr>
                else b1);
          b3 = b2\<lparr>fillStyle := edit_color ev, color := edit_color ev\<rparr>;
          b4 = (if \<not> sel_isSun sel then set_locked (edit_isLocked ev) b3 else b3);
          oldRadius = old_radius b4;
          newRadius = edit_size ev / Fin 2;
          scale = newRadius / oldRadius;
          b5 = Body_scale b4 scale scale;
          b6 = b5\<lparr>circleRadius := Some newRadius\<rparr>
      in if \<not> sel_isSun sel then Body_setMass b6 (mass b6) else b6)"

definition merge_edit :: "selected \<Rightarrow> editing \<Rightarrow> selected" where
  "merge_edit sel ev =
     sel\<lparr>sel_name := edit_name ev, sel_mass := edit_mass ev, sel_size := edit_size ev,
         sel_color := edit_color ev, sel_isLocked := edit_isLocked ev\<rparr>"

definition done_click :: "sim \<Rightarrow> sim" where
  "done_click s =
     (let s1 = (case (editingValues s, selectedBody s) of
                  (Some ev, Some sel) \<Rightarrow>
                    (let s2 = (case find_by_id s (sel_id sel) of
                                 None \<Rightarrow> s
                               | Some r \<Rightarrow> s\<lparr>heap := (heap s)(r := commit_edit sel ev (heap s r))\<rparr>)
                     in s2\<lparr>selectedBody := Some (merge_edit sel ev)\<rparr>)
                | _ \<Rightarrow> s)
      in s1\<lparr>isEditing := False, editingValues := None\<rparr>)"

text \<open>
  The button \<open>Edit\<close> fills the buffer from the selection, and the fields of the form
  write into the buffer; nothing reaches the body before \<open>Done\<close>.
\<close>

definition edit_click :: "sim \<Rightarrow> sim" where
  "edit_click s =
     (case selectedBody s of
        None \<Rightarrow> s
      | Some sel \<Rightarrow>
          s\<lparr>editingValues := Some
               \<lparr>edit_name = sel_name sel, edit_mass = sel_mass sel, edit_size = sel_size sel,
                edit_color = sel_color sel, edit_isLocked = sel_isLocked sel\<rparr>,
            isEditing := True\<rparr>)"

definition name_field_onChange :: "string \<Rightarrow> sim \<Rightarrow> sim" where
  "name_field_onChange n s =
     (case editingValues s of
        None \<Rightarrow> s
      | Some ev \<Rightarrow> s\<lparr>editingValues := Some (ev\<lparr>edit_name := n\<rparr>)\<rparr>)"

definition locked_field_onChange :: "bool \<Rightarrow> sim \<Rightarrow> sim" where
  "locked_field_onChange checked s =
     (case editingValues s of
        None \<Rightarrow> s
      | Some ev \<Rightarrow> s\<lparr>editingValues := Some (ev\<lparr>edit_isLocked := checked\<rparr>)\<rparr>)"

text \<open>
  The variant with live edits applies each field in its \<open>onChange\<close> handler; the argument is
  what \<open>parseFloat\<close> made of the field, any number, \<open>NaN\<close> for a text that is no number.
  Its size handler reads the mass before it scales the shape.
\<close>

definition resize_keeping_mass :: "number \<Rightarrow> body \<Rightarrow> body" where
  "resize_keeping_mass newSize b =
     (let currentMass = mass b;
          currentInverseMass = inverseMass b;
          oldRadius = old_radius b;
          newRadius = newSize / Fin 2;
          scale = newRadius / oldRadius;
          b1 = Body_scale b scale scale;
          b2 = b1\<lparr>circleRadius := Some newRadius\<rparr>
      in (Body_setMass b2 currentMass)\<lparr>inverseMass := currentInverseMass\<rparr>)"

definition update_selected_body :: "(body \<Rightarrow> body) \<Rightarrow> selected \<Rightarrow> sim \<Rightarrow> sim" where
  "update_selected_body f sel s =
     (case find_by_id s (sel_id sel) of
        None \<Rightarrow> s
      | Some r \<Rightarrow> s\<lparr>heap := (heap s)(r := f (heap s r))\<rparr>)"

definition size_onChange :: "number \<Rightarrow> sim \<Rightarrow> sim" where
  "size_onChange newSize s =
     (case (editingValues s, selectedBody s) of
        (Some ev, Some sel) \<Rightarrow>
          update_selected_body (resize_keeping_mass newSize) sel
            (s\<lparr>editingValues := Some (ev\<lparr>edit_size := newSize\<rparr>),
               selectedBody := Some (sel\<lparr>sel_size := newSize\<rparr>)\<rparr>)
      | _ \<Rightarrow> s)"

definition mass_onChange :: "number \<Rightarrow> sim \<Rightarrow> sim" where
  "mass_onChange m s =
     (case (editingValues s, selectedBody s) of
        (Some ev, Some sel) \<Rightarrow>
          update_selected_body (\<lambda>b. (Body_setMass b m)\<lparr>inverseMass := Fin 1 / m\<rparr>) sel
            (s\<lparr>editingValues := Some (ev\<lparr>edit_mass := m\<rparr>),
               selectedBody := Some (sel\<lparr>sel_mass := m\<rparr>)\<rparr>)
      | _ \<Rightarrow> s)"

definition locked_onChange :: "bool \<Rightarrow> sim \<Rightarrow> sim" where
  "locked_onChange locked s =
     (case (editingValues s, selectedBody s) of
        (Some ev, Some sel) \<Rightarrow>
          update_selected_body (set_locked locked) sel
            (s\<lparr>editingValues := Some (ev\<lparr>edit_isLocked := locked\<rparr>),
               selectedBody := Some (sel\<lparr>sel_isLocked := locked\<rparr>)\<rparr>)
      | _ \<Rightarrow> s)"

section \<open>The panel\<close>

text \<open>
  The timer that refreshes the selection every 50 ms. \<open>held\<close> is the body of the mouse
  constraint, the one being dragged.
\<close>

definition refresh_selected :: "ref option \<Rightarrow> sim \<Rightarrow> sim" where
  "refresh_selected held s =
     (case selectedBody s of
        None \<Rightarrow> s
      | Some sel \<Rightarrow>
          (case find_sun s of
             None \<Rightarrow> s
           | Some sun \<Rightarrow>
               (case find_by_id s (sel_id sel) of
                  None \<Rightarrow> s\<lparr>selectedBody := None, isHoldingPlanet := False\<rparr>
                | Some r \<Rightarrow>
                    (let b = heap s r
                     in s\<lparr>isHoldingPlanet := (held = Some r),
                          selectedBody := Some
                            \<lparr>sel_id = body_id b,
                             sel_name = (if name b = [] then ''Unknown'' else name b),
                             sel_mass = sel_mass sel,
                             sel_size = size_of b,
                             sel_color = (if color b \<noteq> [] then color b
                                          else if fillStyle b \<noteq> [] then fillStyle b
                                          else ''#FFFFFF''),
                             sel_orbitalVelocity = calculateOrbitalVelocity b (heap s sun),
                             sel_isSun = isSun b,
                             sel_isLocked = isLocked b\<rparr>\<rparr>))))"

text \<open>
  The rows \<open>Radial Velocity\<close> and \<open>Tangential Velocity\<close> of the panel. A value is a fixed
  text or a number formatted by \<open>toFixed(2)\<close>.
\<close>

datatype shown = Text string | ToFixed number nat

definition radial_value :: "selected \<Rightarrow> bool \<Rightarrow> shown" where
  "radial_value sel holding =
     (if sel_isSun sel then Text ''0.00''
      else if holding \<or> sel_isLocked sel then Text ''0.00''
      else ToFixed (radial (sel_orbitalVelocity sel)) 2)"

definition tangential_value :: "selected \<Rightarrow> bool \<Rightarrow> shown" where
  "tangential_value sel holding =
     (if sel_isSun sel then Text ''0.00''
      else if holding \<or> sel_isLocked sel then Text ''0.00''
      else ToFixed \<bar>tangential (sel_orbitalVelocity sel)\<bar> 2)"

text \<open>The two rows as a render shows them, from the selection and the flag of the state.\<close>

definition velocity_rows :: "sim \<Rightarrow> (shown \<times> shown) option" where
  "velocity_rows s =
     map_option
       (\<lambda>sel. (radial_value sel (isHoldingPlanet s), tangential_value sel (isHoldingPlanet s)))
       (selectedBody s)"

section \<open>Predicates of the statements and an example world\<close>

text \<open>
  The test of the escape rule on a body of the store, and the test that a body is the one
  the selection names.
\<close>

definition escapes :: "(ref \<Rightarrow> body) \<Rightarrow> ref \<Rightarrow> ref \<Rightarrow> bool" where
  "escapes h sun r \<longleftrightarrow>
     \<not> isSun (h r) \<and> \<not> isLocked (h r) \<and> Fin 5000 < distance_from (h sun) (h r)"

definition is_selected :: "selected option \<Rightarrow> body \<Rightarrow> bool" where
  "is_selected selRef b = (case selRef of None \<Rightarrow> False | Some sel \<Rightarrow> sel_id sel = body_id b)"

text \<open>The body that \<open>collisionStart\<close> removes for a pair, if any.\<close>

definition victim :: "(ref \<Rightarrow> body) \<Rightarrow> ref \<times> ref \<Rightarrow> ref option" where
  "victim h pair =
     (if isSun (h (fst pair)) \<and> \<not> isSun (h (snd pair)) then Some (snd pair)
      else if isSun (h (snd pair)) \<and> \<not> isSun (h (fst pair)) then Some (fst pair)
      else None)"

text \<open>
  A world for the examples: the sun as the simulator creates it, a planet near it, a locked
  planet and a planet beyond the escape distance.
\<close>

definition example_sun :: body where
  "example_sun =
     \<lparr>body_id = 0, position = (Fin 400, Fin 400), velocity = (Fin 0, Fin 0),
      mass = Fin 10000, inverseMass = Fin (1 / 10000), density = Fin 2, area = Fin 5000,
      circleRadius = Some (Fin 40), isStatic = True, isSun = True, isLocked = False,
      lockedVelocity = None, name = ''Sun'', color = ''#FFD700'', fillStyle = ''#FFD700''\<rparr>"

definition example_planet :: body where
  "example_planet =
     \<lparr>body_id = 1, position = (Fin 500, Fin 400), velocity = (Fin 3, Fin (- 4)),
      mass = Fin 20, inverseMass = Fin (1 / 20), density = Fin (1 / 15), area = Fin 300,
      circleRadius = Some (Fin 10), isStatic = False, isSun = False, isLocked = False,
      lockedVelocity = None, name = ''Planet 1'', color = ''#336699'', fillStyle = ''#336699''\<rparr>"

definition example_locked :: body where
  "example_locked =
     example_planet\<lparr>body_id := 2, position := (Fin 400, Fin 6400), velocity := (Fin 0, Fin 0),
       isLocked := True, lockedVelocity := Some (Fin 1, Fin 2), name := ''Planet 2''\<rparr>"

definition example_far :: body where
  "example_far =
     example_planet\<lparr>body_id := 3, position := (Fin 5500, Fin 400), name := ''Planet 3''\<rparr>"

definition example_world :: sim where
  "example_world =
     \<lparr>bodies = [0, 1, 2, 3],
      heap = (\<lambda>_. example_sun)(1 := example_planet, 2 := example_locked, 3 := example_far),
      selectedBody = None, selectedBodyRef = None, isEditing = False,
      editingValues = None, isHoldingPlanet = False\<rparr>"

text \<open>The panel's snapshot of the far planet, as a click on it makes it.\<close>

definition example_selection :: selected where
  "example_selection =
     \<lparr>sel_id = 3, sel_name = ''Planet 3'', sel_mass = Fin 20, sel_size = Fin 20,
      sel_color = ''#336699'',
      sel_orbitalVelocity = calculateOrbitalVelocity example_far example_sun,
      sel_isSun = False, sel_isLocked = False\<rparr>"

definition example_selected_world :: sim where
  "example_selected_world =
     example_world\<lparr>selectedBody := Some example_selection,
       selectedBodyRef := Some example_selection\<rparr>"

text \<open>The buffer of the edit form as the button \<open>Edit\<close> fills it for that selection.\<close>

definition example_edit :: editing where
  "example_edit =
     \<lparr>edit_name = sel_name example_selection, edit_mass = sel_mass example_selection,
      edit_size = sel_size example_selection, edit_color = sel_color example_selection,
      edit_isLocked = sel_isLocked example_selection\<rparr>"

text \<open>The panel's snapshot of the sun and of the planet near it.\<close>

definition example_sun_selection :: selected where
  "example_sun_selection =
     \<lparr>sel_id = 0, sel_name = ''Sun'', sel_mass = Fin 10000, sel_size = Fin 80,
      sel_color = ''#FFD700'',
      sel_orbitalVelocity = calculateOrbitalVelocity example_sun example_sun,
      sel_isSun = True, sel_isLocked = False\<rparr>"

definition example_near_selection :: selected where
  "example_near_selection =
     \<lparr>sel_id = 1, sel_name = ''Planet 1'', sel_mass = Fin 20, sel_size = Fin 20,
      sel_color = ''#336699'',
      sel_orbitalVelocity = calculateOrbitalVelocity example_planet example_sun,
      sel_isSun = False, sel_isLocked = False\<rparr>"

text \<open>The example world with the planet near the sun selected.\<close>

definition example_near_world :: sim where
  "example_near_world =
     example_world\<lparr>selectedBody := Some example_near_selection,
       selectedBodyRef := Some example_near_selection\<rparr>"

text \<open>
  A world where the locked planet lies against the planet near the sun, and the work of the
  engine in the update where the two first touch: the contact is new, so its pair is reported
  to \<open>collisionStart\<close> and not to \<open>collisionActive\<close>, and the resolution of the
  collision pushes the locked planet. The moves of the integration play no part and are
  left out.
\<close>

definition example_contact_world :: sim where
  "example_contact_world =
     \<lparr>bodies = [0, 1, 2],
      heap = (\<lambda>_. example_sun)
        (1 := example_planet, 2 := example_locked\<lparr>position := (Fin 515, Fin 400)\<rparr>),
      selectedBody = None, selectedBodyRef = None, isEditing = False,
      editingValues = None, isHoldingPlanet = False\<rparr>"

definition example_first_contact :: engine_work where
  "example_first_contact =
     \<lparr>pointer_body = None,
      integrate = (\<lambda>h. h),
      started = [(1, 2)],
      resolve = (\<lambda>h. h(2 := (h 2)\<lparr>velocity := (Fin 1, Fin 0)\<rparr>)),
      active = []\<rparr>"

section \<open>Arithmetic of numbers and angles\<close>

lemma Fin_minus [simp]: "Fin a - Fin b = Fin (a - b)"
  by (simp add: minus_number_def)

lemma plus_NaN_right [simp]: "a + NaN = NaN"
  by (cases a) simp_all

lemma sqrt_10000: "sqrt 10000 = 100"
  by (rule real_sqrt_unique) simp_all

lemma sqrt_5100_squared: "sqrt 26010000 = 5100"
  by (rule real_sqrt_unique) simp_all

lemma sqrt_one_plus_ratio:
  fixes a b :: real
  assumes "a \<noteq> 0"
  shows "sqrt (1 + (b / a)\<^sup>2) = sqrt (a * a + b * b) / \<bar>a\<bar>"
proof -
  have "1 + (b / a)\<^sup>2 = (a * a + b * b) / (a * a)"
    using assms by (simp add: field_simps power2_eq_square)
  then have "sqrt (1 + (b / a)\<^sup>2) = sqrt (a * a + b * b) / sqrt (a * a)"
    by (simp add: real_sqrt_divide)
  then show ?thesis by simp
qed

lemma hyp_pos:
  fixes a b :: real
  assumes "a \<noteq> 0 \<or> b \<noteq> 0"
  shows "0 < sqrt (a * a + b * b)"
proof -
  have "0 < a * a + b * b"
    using assms by (metis add.commute not_sum_squares_lt_zero sum_squares_eq_zero_iff less_eq_real_def linorder_not_less power2_eq_square sum_power2_gt_zero_iff)
  then show ?thesis by simp
qed

lemma cos_atan2_real:
  assumes "a \<noteq> 0 \<or> b \<noteq> 0"
  shows "cos (atan2_real b a) = a / sqrt (a * a + b * b)"
proof -
  consider (pos) "0 < a" | (neg) "a < 0" | (zero) "a = 0" "b \<noteq> 0"
    using assms by fastforce
  then show ?thesis
  proof cases
    case pos
    then show ?thesis
      by (simp add: atan2_real_def cos_arctan sqrt_one_plus_ratio)
  next
    case neg
    then show ?thesis
      by (simp add: atan2_real_def cos_arctan sqrt_one_plus_ratio)
  next
    case zero
    then show ?thesis
      by (simp add: atan2_real_def)
  qed
qed

lemma sin_atan2_real:
  assumes "a \<noteq> 0 \<or> b \<noteq> 0"
  shows "sin (atan2_real b a) = b / sqrt (a * a + b * b)"
proof -
  consider (pos) "0 < a" | (neg) "a < 0" | (zero) "a = 0" "b \<noteq> 0"
    using assms by fastforce
  then show ?thesis
  proof cases
    case pos
    then show ?thesis
      by (simp add: atan2_real_def sin_arctan sqrt_one_plus_ratio)
  next
    case neg
    then show ?thesis
      by (simp add: atan2_real_def sin_arctan sqrt_one_plus_ratio)
  next
    case zero
    then show ?thesis
      by (auto simp add: atan2_real_def real_sqrt_mult)
  qed
qed

section \<open>The gravity pass\<close>

lemma gravity_update_velocity:
  assumes "position sun = (Fin sx, Fin sy)" and "position b = (Fin px, Fin py)"
    and "sx \<noteq> px \<or> sy \<noteq> py"
    and "mass sun = Fin M" and "mass b = Fin m" and "m \<noteq> 0"
    and "velocity b = (Fin vx, Fin vy)"
    and "d = sqrt ((sx - px) * (sx - px) + (sy - py) * (sy - py))"
  shows "velocity (gravity_update sun b) =
           (Fin (vx + (sx - px) / d * ((1 / 2 * M * m / (d * d)) / m)),
            Fin (vy + (sy - py) / d * ((1 / 2 * M * m / (d * d)) / m)))"
proof -
  have nz: "sx - px \<noteq> 0 \<or> sy - py \<noteq> 0"
    using assms(3) by auto
  have dpos: "0 < d"
    unfolding assms(8) using nz by (rule hyp_pos)
  have nonneg: "\<not> (sx - px) * (sx - px) + (sy - py) * (sy - py) < 0"
    by (simp add: not_less)
  show ?thesis
    using dpos nonneg assms(6)
    by (simp add: gravity_update_def Let_def Body_setVelocity_def assms(1,2,4,5,7)
        GRAVITY_CONSTANT_def cos_atan2_real [OF nz] sin_atan2_real [OF nz] assms(8) [symmetric])
qed

lemma gravity_update_frame [simp]:
  "position (gravity_update sun b) = position b"
  "isLocked (gravity_update sun b) = isLocked b"
  "isSun (gravity_update sun b) = isSun b"
  "body_id (gravity_update sun b) = body_id b"
  "mass (gravity_update sun b) = mass b"
  by (simp_all add: gravity_update_def Let_def Body_setVelocity_def)

lemma apply_gravity_other: "x \<noteq> r \<Longrightarrow> apply_gravity sun x h r = h r"
  by (simp add: apply_gravity_def)

lemma apply_gravity_sun: "apply_gravity sun x h sun = h sun"
  by (simp add: apply_gravity_def)

lemma apply_gravity_at:
  "r \<noteq> sun \<Longrightarrow>
   apply_gravity sun r h r = (if isLocked (h r) then h r else gravity_update (h sun) (h r))"
  by (simp add: apply_gravity_def)

lemma fold_apply_gravity_notin:
  "r \<notin> set xs \<Longrightarrow> fold (apply_gravity sun) xs h r = h r"
  by (induction xs arbitrary: h) (simp_all add: apply_gravity_other)

lemma fold_apply_gravity_sun: "fold (apply_gravity sun) xs h sun = h sun"
  by (induction xs arbitrary: h) (simp_all add: apply_gravity_sun)

lemma fold_apply_gravity_at:
  assumes "distinct xs" and "r \<in> set xs" and "r \<noteq> sun"
  shows "fold (apply_gravity sun) xs h r =
           (if isLocked (h r) then h r else gravity_update (h sun) (h r))"
  using assms
proof (induction xs arbitrary: h)
  case Nil
  then show ?case by simp
next
  case (Cons x xs)
  show ?case
  proof (cases "x = r")
    case True
    with Cons.prems have "r \<notin> set xs" by simp
    then show ?thesis
      using True Cons.prems(3) by (simp add: fold_apply_gravity_notin apply_gravity_at)
  next
    case False
    with Cons.prems have "distinct xs" and "r \<in> set xs" by auto
    then have "fold (apply_gravity sun) xs (apply_gravity sun x h) r =
        (if isLocked (apply_gravity sun x h r) then apply_gravity sun x h r
         else gravity_update (apply_gravity sun x h sun) (apply_gravity sun x h r))"
      using Cons.IH Cons.prems(3) by blast
    then show ?thesis
      using False by (simp add: apply_gravity_other apply_gravity_sun)
  qed
qed

lemma fold_apply_gravity_locked:
  "isLocked (h r) \<Longrightarrow> fold (apply_gravity sun) xs h r = h r"
proof (induction xs arbitrary: h)
  case Nil
  then show ?case by simp
next
  case (Cons x xs)
  have "apply_gravity sun x h r = h r"
    using Cons.prems by (cases "x = r") (simp_all add: apply_gravity_def)
  then show ?case
    using Cons.IH [of "apply_gravity sun x h"] Cons.prems by simp
qed

lemma fold_apply_gravity_field:
  assumes "\<And>sun b. P (gravity_update sun b) = P b"
  shows "P (fold (apply_gravity sun) xs h r) = P (h r)"
proof (induction xs arbitrary: h)
  case Nil
  then show ?case by simp
next
  case (Cons x xs)
  have "P (apply_gravity sun x h r) = P (h r)"
    by (simp add: apply_gravity_def assms)
  then show ?case
    using Cons.IH [of "apply_gravity sun x h"] by simp
qed

section \<open>The second pass and the whole handler\<close>

lemma keep_still_at:
  "keep_still x h r =
     (if r = x \<and> isLocked (h r) then Body_setVelocity (h r) (Fin 0, Fin 0) else h r)"
  by (auto simp add: keep_still_def)

lemma keep_still_field:
  assumes "\<And>b v. P (Body_setVelocity b v) = P b"
  shows "P (keep_still x h r) = P (h r)"
  by (simp add: keep_still_at assms)

lemma Body_setVelocity_frame [simp]:
  "position (Body_setVelocity b v) = position b"
  "isLocked (Body_setVelocity b v) = isLocked b"
  "isSun (Body_setVelocity b v) = isSun b"
  "body_id (Body_setVelocity b v) = body_id b"
  "velocity (Body_setVelocity b v) = v"
  by (simp_all add: Body_setVelocity_def)

lemma escapes_keep_still [simp]: "escapes (keep_still x h) sun r = escapes h sun r"
  by (simp add: escapes_def distance_from_def keep_still_field)

lemma fold_keep_still_at:
  "fold keep_still xs h r =
     (if r \<in> set xs \<and> isLocked (h r) then Body_setVelocity (h r) (Fin 0, Fin 0) else h r)"
proof (induction xs arbitrary: h)
  case Nil
  then show ?case by simp
next
  case (Cons x xs)
  have "fold keep_still (x # xs) h r = fold keep_still xs (keep_still x h) r"
    by simp
  also have "\<dots> = (if r \<in> set xs \<and> isLocked (keep_still x h r)
                    then Body_setVelocity (keep_still x h r) (Fin 0, Fin 0)
                    else keep_still x h r)"
    by (rule Cons.IH)
  also have "\<dots> = (if r \<in> set (x # xs) \<and> isLocked (h r)
                    then Body_setVelocity (h r) (Fin 0, Fin 0) else h r)"
    by (auto simp add: keep_still_def Body_setVelocity_def)
  finally show ?case .
qed

lemma heap_reset_and_cull:
  "heap (reset_and_cull selRef sun x s) = keep_still x (heap s)"
  by (auto simp add: reset_and_cull_def Let_def keep_still_def clear_if_selected_def World_remove_def
      split: option.splits)

lemma bodies_reset_and_cull:
  "bodies (reset_and_cull selRef sun x s) =
     (if escapes (heap s) sun x then remove1 x (bodies s) else bodies s)"
  by (auto simp add: reset_and_cull_def Let_def escapes_def clear_if_selected_def World_remove_def
      split: option.splits)

lemma selectedBody_reset_and_cull:
  "selectedBody (reset_and_cull selRef sun x s) =
     (if escapes (heap s) sun x \<and> is_selected selRef (heap s x) then None else selectedBody s)"
  by (auto simp add: reset_and_cull_def Let_def escapes_def clear_if_selected_def World_remove_def
      is_selected_def split: option.splits)

lemma heap_fold_reset_and_cull:
  "heap (fold (reset_and_cull selRef sun) xs s) = fold keep_still xs (heap s)"
  by (induction xs arbitrary: s) (simp_all add: heap_reset_and_cull)

lemma bodies_fold_reset_and_cull:
  assumes "distinct (bodies s)"
  shows "distinct (bodies (fold (reset_and_cull selRef sun) xs s)) \<and>
         set (bodies (fold (reset_and_cull selRef sun) xs s)) =
           set (bodies s) - {x \<in> set xs. escapes (heap s) sun x}"
  using assms
proof (induction xs arbitrary: s)
  case Nil
  then show ?case by simp
next
  case (Cons x xs)
  let ?s = "reset_and_cull selRef sun x s"
  have d: "distinct (bodies ?s)"
    using Cons.prems by (simp add: bodies_reset_and_cull)
  have e: "escapes (heap ?s) sun = escapes (heap s) sun"
    by (rule ext) (simp add: heap_reset_and_cull)
  have b: "set (bodies ?s) = set (bodies s) - (if escapes (heap s) sun x then {x} else {})"
    using Cons.prems by (simp add: bodies_reset_and_cull)
  show ?case
    using Cons.IH [OF d] by (auto simp add: e b)
qed

lemma is_selected_keep_still [simp]:
  "is_selected selRef (keep_still x h r) = is_selected selRef (h r)"
  by (simp add: is_selected_def keep_still_field split: option.splits)

lemma selectedBody_fold_reset_and_cull:
  "selectedBody (fold (reset_and_cull selRef sun) xs s) =
     (if \<exists>x \<in> set xs. escapes (heap s) sun x \<and> is_selected selRef (heap s x) then None
      else selectedBody s)"
proof (induction xs arbitrary: s)
  case Nil
  then show ?case by simp
next
  case (Cons x xs)
  show ?case
    by (auto simp add: Cons.IH selectedBody_reset_and_cull heap_reset_and_cull)
qed

lemma find_sun_Some:
  "find_sun s = Some sun \<Longrightarrow> sun \<in> set (bodies s) \<and> isSun (heap s sun)"
  by (auto simp add: find_sun_def find_Some_iff)

lemma heap_hover_select [simp]: "heap (hover_select selRef sun um s) = heap s"
  by (simp add: hover_select_def Let_def split: option.splits)

lemma bodies_hover_select [simp]: "bodies (hover_select selRef sun um s) = bodies s"
  by (simp add: hover_select_def Let_def split: option.splits)

lemma heap_gravity_pass [simp]:
  "heap (gravity_pass sun s) = fold (apply_gravity sun) (bodies s) (heap s)"
  by (simp add: gravity_pass_def)

lemma bodies_gravity_pass [simp]: "bodies (gravity_pass sun s) = bodies s"
  by (simp add: gravity_pass_def)

lemma selectedBody_gravity_pass [simp]:
  "selectedBody (gravity_pass sun s) = selectedBody s"
  "selectedBodyRef (gravity_pass sun s) = selectedBodyRef s"
  by (simp_all add: gravity_pass_def)

lemma escapes_gravity_pass [simp]:
  "escapes (fold (apply_gravity sun) xs h) sun' r = escapes h sun' r"
  by (simp add: escapes_def distance_from_def fold_apply_gravity_field)

lemma is_selected_gravity_pass [simp]:
  "is_selected selRef (fold (apply_gravity sun) xs h r) = is_selected selRef (h r)"
  by (simp add: is_selected_def fold_apply_gravity_field split: option.splits)

lemma heap_beforeUpdate:
  "find_sun s = Some sun \<Longrightarrow>
   heap (beforeUpdate um s) = fold keep_still (bodies s) (fold (apply_gravity sun) (bodies s) (heap s))"
  by (simp add: beforeUpdate_def Let_def heap_fold_reset_and_cull)

lemma bodies_beforeUpdate:
  assumes "find_sun s = Some sun" and "distinct (bodies s)"
  shows "set (bodies (beforeUpdate um s)) = set (bodies s) - {x. escapes (heap s) sun x}"
proof -
  have "distinct (bodies (gravity_pass sun s))"
    using assms(2) by simp
  from bodies_fold_reset_and_cull [OF this, of "selectedBodyRef s" sun "bodies s"]
  show ?thesis
    using assms(1) by (auto simp add: beforeUpdate_def Let_def)
qed

section \<open>Gravity\<close>

text \<open>
  The gravity step in exact arithmetic, where products and quotients of finite numbers
  neither round nor overflow and \<open>Matter.Body.setVelocity\<close> stores what it is given. In
  one simulation step, a planet that is not locked gets its velocity increased
  by \<open>a * u\<close>, where \<open>u\<close> is the unit vector from the planet to the sun,
  \<open>a = F / m\<close> and \<open>F = G * M * m / d\<^sup>2\<close>, with \<open>d\<close> the distance of the
  two centres, \<open>M\<close> the mass of the sun and \<open>m\<close> that of the planet; only the planet's
  own velocity of before the step enters, and \<open>a = G * M / d\<^sup>2\<close> does not depend on
  \<open>m\<close>. The gravity pass leaves a locked planet as it is. The unit vector exists when
  the centres differ, and \<open>F / m\<close> when the mass is not zero; the numbers are finite.
\<close>

lemma gravity_step_in_exact_arithmetic:
  assumes "find_sun s = Some sun" and "distinct (bodies s)"
    and "r \<in> set (bodies s)" and "\<not> isSun (heap s r)"
  shows "(\<not> isLocked (heap s r) \<and>
          position (heap s sun) = (Fin sx, Fin sy) \<and> position (heap s r) = (Fin px, Fin py) \<and>
          (sx \<noteq> px \<or> sy \<noteq> py) \<and>
          mass (heap s sun) = Fin M \<and> mass (heap s r) = Fin m \<and> m \<noteq> 0 \<and>
          velocity (heap s r) = (Fin vx, Fin vy) \<and>
          d = sqrt ((sx - px) * (sx - px) + (sy - py) * (sy - py)) \<and>
          F = 1 / 2 * M * m / (d * d) \<and> a = F / m
          \<longrightarrow> velocity (heap (beforeUpdate um s) r) =
                (Fin (vx + a * ((sx - px) / d)), Fin (vy + a * ((sy - py) / d))) \<and>
              a = 1 / 2 * M / (d * d)) \<and>
         (isLocked (heap s r) \<longrightarrow> heap (gravity_pass sun s) r = heap s r)"
proof (intro conjI impI)
  assume "isLocked (heap s r)"
  then show "heap (gravity_pass sun s) r = heap s r"
    by (simp add: fold_apply_gravity_locked)
next
  assume h: "\<not> isLocked (heap s r) \<and>
          position (heap s sun) = (Fin sx, Fin sy) \<and> position (heap s r) = (Fin px, Fin py) \<and>
          (sx \<noteq> px \<or> sy \<noteq> py) \<and>
          mass (heap s sun) = Fin M \<and> mass (heap s r) = Fin m \<and> m \<noteq> 0 \<and>
          velocity (heap s r) = (Fin vx, Fin vy) \<and>
          d = sqrt ((sx - px) * (sx - px) + (sy - py) * (sy - py)) \<and>
          F = 1 / 2 * M * m / (d * d) \<and> a = F / m"
  show "a = 1 / 2 * M / (d * d)"
    using h by simp
  have "isSun (heap s sun)"
    using assms(1) by (simp add: find_sun_Some)
  with assms(4) have ne: "r \<noteq> sun"
    by auto
  let ?h = "fold (apply_gravity sun) (bodies s) (heap s)"
  have g: "?h r = gravity_update (heap s sun) (heap s r)"
    using h by (simp add: fold_apply_gravity_at [OF assms(2,3) ne])
  then have "\<not> isLocked (?h r)"
    using h by simp
  then have "heap (beforeUpdate um s) r = gravity_update (heap s sun) (heap s r)"
    by (simp add: heap_beforeUpdate [OF assms(1)] fold_keep_still_at g)
  moreover have "velocity (gravity_update (heap s sun) (heap s r)) =
           (Fin (vx + (sx - px) / d * ((1 / 2 * M * m / (d * d)) / m)),
            Fin (vy + (sy - py) / d * ((1 / 2 * M * m / (d * d)) / m)))"
    using h by (intro gravity_update_velocity) simp_all
  ultimately show "velocity (heap (beforeUpdate um s) r) =
                (Fin (vx + a * ((sx - px) / d)), Fin (vy + a * ((sy - py) / d)))"
    using h by (simp add: mult.commute)
qed

lemma gravity_step_in_exact_arithmetic_example:
  "velocity (heap (beforeUpdate None example_world) 1) = (Fin (5 / 2), Fin (- 4)) \<and>
   heap (gravity_pass 0 example_world) 2 = heap example_world 2"
  using gravity_step_in_exact_arithmetic
          [where s = example_world and sun = 0 and r = 1 and sx = 400 and sy = 400
             and px = 500 and py = 400 and M = 10000 and m = 20 and vx = 3 and vy = "- 4"
             and d = 100 and F = "1 / 2 * 10000 * 20 / (100 * 100)" and a = "1 / 2"
             and um = None]
        gravity_step_in_exact_arithmetic [where s = example_world and sun = 0 and r = 2]
  by (simp add: example_world_def example_sun_def example_planet_def example_locked_def
      example_far_def find_sun_def sqrt_10000)

section \<open>The escape rule\<close>

lemma selectedBody_hover_select:
  "selectedBody (hover_select selRef sun um s) = None \<or>
   selectedBody (hover_select selRef sun um s) = selectedBody s \<or>
   (\<exists>x sel'. um = Some x \<and> \<not> is_selected selRef (heap s x) \<and>
        selectedBody (hover_select selRef sun um s) = Some sel' \<and> sel_id sel' = body_id (heap s x))"
  by (auto simp add: hover_select_def Let_def is_selected_def split: option.splits)

lemma selectedBody_hover_select_None [simp]:
  "selectedBody (hover_select selRef sun None s) = selectedBody s"
  by (simp add: hover_select_def)

text \<open>
  Claim C5. A planet that is not locked and is more than 5000 away from the sun is removed
  from the world by the step, and if it was the selected body (the one that the reference
  to the selection names) the selection no longer names it: the selection is cleared, unless
  the pointer is pressed on another planet, which then becomes the selection. A locked
  planet stays in the world, at any distance, and stays locked.
\<close>

theorem escape_rule_removes_unlocked_and_spares_locked:
  assumes "find_sun s = Some sun" and "distinct (bodies s)"
    and "r \<in> set (bodies s)" and "\<not> isSun (heap s r)"
  shows "(\<not> isLocked (heap s r) \<and> Fin 5000 < distance_from (heap s sun) (heap s r) \<longrightarrow>
            r \<notin> set (bodies (beforeUpdate um s)) \<and>
            (is_selected (selectedBodyRef s) (heap s r) \<longrightarrow>
               \<not> is_selected (selectedBody (beforeUpdate um s)) (heap s r) \<and>
               (um = None \<longrightarrow> selectedBody (beforeUpdate um s) = None))) \<and>
         (isLocked (heap s r) \<longrightarrow>
            r \<in> set (bodies (beforeUpdate um s)) \<and> isLocked (heap (beforeUpdate um s) r))"
proof (intro conjI impI)
  assume "isLocked (heap s r)"
  then have "\<not> escapes (heap s) sun r"
    by (simp add: escapes_def)
  then show "r \<in> set (bodies (beforeUpdate um s))"
    using assms(3) by (simp add: bodies_beforeUpdate [OF assms(1,2)])
  show "isLocked (heap (beforeUpdate um s) r)"
    using \<open>isLocked (heap s r)\<close>
    by (simp add: heap_beforeUpdate [OF assms(1)] fold_keep_still_at fold_apply_gravity_field)
next
  assume far: "\<not> isLocked (heap s r) \<and> Fin 5000 < distance_from (heap s sun) (heap s r)"
  then have esc: "escapes (heap s) sun r"
    using assms(4) by (simp add: escapes_def)
  then show "r \<notin> set (bodies (beforeUpdate um s))"
    by (simp add: bodies_beforeUpdate [OF assms(1,2)])
  assume sel: "is_selected (selectedBodyRef s) (heap s r)"
  let ?s2 = "fold (reset_and_cull (selectedBodyRef s) sun) (bodies s) (gravity_pass sun s)"
  have none: "selectedBody ?s2 = None"
    using esc sel assms(3) by (auto simp add: selectedBody_fold_reset_and_cull)
  have upd: "beforeUpdate um s = hover_select (selectedBodyRef s) sun um ?s2"
    using assms(1) by (simp add: beforeUpdate_def Let_def)
  have same_id: "body_id (heap ?s2 x) = body_id (heap s x)" for x
    by (simp add: heap_fold_reset_and_cull fold_keep_still_at fold_apply_gravity_field)
  from selectedBody_hover_select [of "selectedBodyRef s" sun um ?s2]
  show "\<not> is_selected (selectedBody (beforeUpdate um s)) (heap s r)"
    using none sel by (auto simp add: upd is_selected_def same_id split: option.splits)
  show "selectedBody (beforeUpdate um s) = None" if "um = None"
    unfolding upd using that none by simp
qed

theorem escape_rule_removes_unlocked_and_spares_locked_witness:
  "3 \<notin> set (bodies (beforeUpdate None example_selected_world)) \<and>
   selectedBody (beforeUpdate None example_selected_world) = None \<and>
   2 \<in> set (bodies (beforeUpdate None example_selected_world))"
  using escape_rule_removes_unlocked_and_spares_locked [of example_selected_world 0 3 None]
        escape_rule_removes_unlocked_and_spares_locked [of example_selected_world 0 2 None]
  by (simp add: example_selected_world_def example_world_def example_sun_def example_planet_def
      example_locked_def example_far_def example_selection_def find_sun_def distance_from_def
      is_selected_def sqrt_5100_squared)

section \<open>The diagnostic on a static body\<close>

text \<open>
  Claim C10. For a static body, the sun in particular, the orbital-velocity diagnostic
  returns zero for both components: the test comes before the division by the distance,
  so the sun passed as the body gives no \<open>NaN\<close>.
\<close>

theorem orbital_velocity_of_static_body_is_zero:
  "isStatic b \<Longrightarrow> calculateOrbitalVelocity b sun = \<lparr>radial = Fin 0, tangential = Fin 0\<rparr>"
  by (simp add: calculateOrbitalVelocity_def Let_def)

theorem orbital_velocity_of_static_body_is_zero_witness:
  "calculateOrbitalVelocity example_sun example_sun = \<lparr>radial = Fin 0, tangential = Fin 0\<rparr>"
  using orbital_velocity_of_static_body_is_zero [of example_sun example_sun]
  by (simp add: example_sun_def)

text \<open>
  The test is what makes the difference: a body at the centre of the sun that is neither
  static nor locked gets \<open>NaN\<close> for both components.
\<close>

lemma orbital_velocity_unguarded_at_zero_distance:
  "calculateOrbitalVelocity (example_planet\<lparr>position := (Fin 400, Fin 400)\<rparr>) example_sun =
     \<lparr>radial = NaN, tangential = NaN\<rparr>"
  by (simp add: calculateOrbitalVelocity_def Let_def example_planet_def example_sun_def
      signed_inf_def minus_number_def)

section \<open>Lock and unlock\<close>

lemma Body_scale_frame [simp]:
  "velocity (Body_scale b sx sy) = velocity b"
  "lockedVelocity (Body_scale b sx sy) = lockedVelocity b"
  "isLocked (Body_scale b sx sy) = isLocked b"
  by (simp_all add: Body_scale_def Body_setMass_def Let_def split: option.splits)

lemma velocity_commit_edit:
  "velocity (commit_edit sel ev b) =
     (if sel_isSun sel then velocity b else velocity (set_locked (edit_isLocked ev) b))"
  by (simp add: commit_edit_def Let_def Body_setMass_def set_locked_def Body_setVelocity_def
      split: option.splits)

lemma lockedVelocity_commit_edit:
  "lockedVelocity (commit_edit sel ev b) =
     (if sel_isSun sel then lockedVelocity b
      else lockedVelocity (set_locked (edit_isLocked ev) b))"
  by (simp add: commit_edit_def Let_def Body_setMass_def set_locked_def Body_setVelocity_def
      split: option.splits)

lemma isLocked_commit_edit:
  "isLocked (commit_edit sel ev b) = (if sel_isSun sel then isLocked b else edit_isLocked ev)"
  by (simp add: commit_edit_def Let_def Body_setMass_def set_locked_def Body_setVelocity_def
      split: option.splits)

text \<open>
  The lock branch, with \<open>Matter.Body.setVelocity\<close> taken to store the vector it is given.
  Locking a planet saves its velocity in \<open>lockedVelocity\<close>, sets \<open>isLocked\<close> and
  makes the velocity zero; unlocking a planet with a saved velocity makes that its velocity,
  clears \<open>lockedVelocity\<close> and unsets \<open>isLocked\<close>. One lock followed at once by one
  unlock gives back the velocity of before the lock.
\<close>

lemma lock_then_unlock_restores_velocity:
  "set_locked True b =
     b\<lparr>lockedVelocity := Some (velocity b), isLocked := True, velocity := (Fin 0, Fin 0)\<rparr> \<and>
   (lockedVelocity b = Some v \<longrightarrow>
      set_locked False b = b\<lparr>isLocked := False, velocity := v, lockedVelocity := None\<rparr>) \<and>
   set_locked False (set_locked True b) = b\<lparr>isLocked := False, lockedVelocity := None\<rparr> \<and>
   velocity (set_locked False (set_locked True b)) = velocity b \<and>
   (\<not> sel_isSun sel1 \<and> \<not> sel_isSun sel2 \<and> edit_isLocked ev1 \<and> \<not> edit_isLocked ev2 \<longrightarrow>
      velocity (commit_edit sel2 ev2 (commit_edit sel1 ev1 b)) = velocity b \<and>
      lockedVelocity (commit_edit sel2 ev2 (commit_edit sel1 ev1 b)) = None \<and>
      \<not> isLocked (commit_edit sel2 ev2 (commit_edit sel1 ev1 b)))"
  by (simp add: set_locked_def Body_setVelocity_def Let_def velocity_commit_edit
      lockedVelocity_commit_edit isLocked_commit_edit)

lemma lock_then_unlock_restores_velocity_example:
  "set_locked False example_locked =
     example_locked\<lparr>isLocked := False, velocity := (Fin 1, Fin 2), lockedVelocity := None\<rparr> \<and>
   velocity (commit_edit example_selection (example_edit\<lparr>edit_isLocked := False\<rparr>)
              (commit_edit example_selection (example_edit\<lparr>edit_isLocked := True\<rparr>) example_far)) =
     velocity example_far"
  using lock_then_unlock_restores_velocity [of example_locked "(Fin 1, Fin 2)"]
        lock_then_unlock_restores_velocity
          [of example_far _ example_selection example_selection
              "example_edit\<lparr>edit_isLocked := True\<rparr>" "example_edit\<lparr>edit_isLocked := False\<rparr>"]
  by (simp add: example_locked_def example_planet_def example_selection_def example_edit_def)

text \<open>
  The lock branch does not test whether the planet is locked already. A commit of the form
  with the box still checked locks again and saves the velocity of the locked planet, which
  is zero; the unlock that follows restores zero.
\<close>

lemma relock_overwrites_saved_velocity:
  "velocity (set_locked False (set_locked True (set_locked True b))) = (Fin 0, Fin 0)"
  by (simp add: set_locked_def Body_setVelocity_def Let_def)

lemma body_id_commit_edit [simp]: "body_id (commit_edit sel ev b) = body_id b"
  by (simp add: commit_edit_def Let_def Body_setMass_def Body_scale_def set_locked_def
      Body_setVelocity_def split: option.splits)

text \<open>
  Claim C4. A lock followed by an unlock, with no step of the simulation between them,
  should give the planet the velocity it had before the lock. Through the form it does not
  when the locked planet is edited in between: the planet near the sun, with velocity
  \<open>(3, -4)\<close>, is locked with \<open>Done\<close>, renamed with \<open>Done\<close> while the box is still
  checked, and unlocked with \<open>Done\<close>. The second commit runs the lock branch again and
  saves the zero velocity of the locked planet over the saved one, so the unlock restores
  zero. The checkbox handler of the variant with live edits locks only when the box changes.
\<close>

theorem relock_on_commit_loses_saved_velocity:
  "velocity (heap example_near_world 1) = (Fin 3, Fin (- 4)) \<and>
   velocity (heap
     (done_click (locked_field_onChange False (edit_click
       (done_click (name_field_onChange ''Mars'' (edit_click
         (done_click (locked_field_onChange True (edit_click example_near_world)))))))))
     1) = (Fin 0, Fin 0)"
  by (simp add: done_click_def edit_click_def locked_field_onChange_def name_field_onChange_def
      example_near_world_def example_world_def example_near_selection_def find_by_id_def
      merge_edit_def velocity_commit_edit lockedVelocity_commit_edit isLocked_commit_edit
      set_locked_def Body_setVelocity_def Let_def example_planet_def example_sun_def)

section \<open>The diagnostic on a locked or held body\<close>

lemma refresh_selected_found:
  assumes "find_sun s = Some sun" and "selectedBody s = Some sel"
    and "find_by_id s (sel_id sel) = Some r"
  shows "isHoldingPlanet (refresh_selected held s) = (held = Some r)"
    and "map_option sel_orbitalVelocity (selectedBody (refresh_selected held s)) =
           Some (calculateOrbitalVelocity (heap s r) (heap s sun))"
    and "map_option sel_isLocked (selectedBody (refresh_selected held s)) = Some (isLocked (heap s r))"
  using assms by (simp_all add: refresh_selected_def Let_def)

text \<open>
  Claim C7, as the code has it. The diagnostic returns zero for a body that is locked or
  static, whatever its stored velocity. For any other body it returns the decomposition of
  the stored velocity along and across the line from the sun, and whether the body is held
  does not enter: the timer records that the selected body is held, stores the diagnostic of
  the body in the selection all the same, and it is the two rows of the panel that show
  \<open>0.00\<close> while the selected body is held or locked.
\<close>

theorem orbital_velocity_ignores_hold_and_panel_shows_zero:
  "(isLocked b \<or> isStatic b \<longrightarrow>
      calculateOrbitalVelocity b sun = \<lparr>radial = Fin 0, tangential = Fin 0\<rparr>) \<and>
   (\<not> isLocked b \<and> \<not> isStatic b \<longrightarrow>
      calculateOrbitalVelocity b sun =
        \<lparr>radial =
           fst (velocity b) * ((fst (position b) - fst (position sun)) / distance_from sun b) +
           snd (velocity b) * ((snd (position b) - snd (position sun)) / distance_from sun b),
         tangential =
           fst (velocity b) * ((snd (position b) - snd (position sun)) / distance_from sun b) -
           snd (velocity b) * ((fst (position b) - fst (position sun)) / distance_from sun b)\<rparr>) \<and>
   (find_sun s = Some sun_ref \<and> selectedBody s = Some sel \<and>
    find_by_id s (sel_id sel) = Some r \<longrightarrow>
      isHoldingPlanet (refresh_selected held s) = (held = Some r) \<and>
      map_option sel_orbitalVelocity (selectedBody (refresh_selected held s)) =
        Some (calculateOrbitalVelocity (heap s r) (heap s sun_ref)) \<and>
      (held = Some r \<or> isLocked (heap s r) \<longrightarrow>
         velocity_rows (refresh_selected held s) = Some (Text ''0.00'', Text ''0.00'')))"
proof (intro conjI impI)
  show "calculateOrbitalVelocity b sun = \<lparr>radial = Fin 0, tangential = Fin 0\<rparr>"
    if "isLocked b \<or> isStatic b"
    using that by (auto simp add: calculateOrbitalVelocity_def Let_def)
  show "calculateOrbitalVelocity b sun =
        \<lparr>radial =
           fst (velocity b) * ((fst (position b) - fst (position sun)) / distance_from sun b) +
           snd (velocity b) * ((snd (position b) - snd (position sun)) / distance_from sun b),
         tangential =
           fst (velocity b) * ((snd (position b) - snd (position sun)) / distance_from sun b) -
           snd (velocity b) * ((fst (position b) - fst (position sun)) / distance_from sun b)\<rparr>"
    if "\<not> isLocked b \<and> \<not> isStatic b"
    using that by (simp add: calculateOrbitalVelocity_def distance_from_def Let_def)
next
  assume h: "find_sun s = Some sun_ref \<and> selectedBody s = Some sel \<and>
    find_by_id s (sel_id sel) = Some r"
  then show "isHoldingPlanet (refresh_selected held s) = (held = Some r)"
    by (simp add: refresh_selected_found)
  from h show "map_option sel_orbitalVelocity (selectedBody (refresh_selected held s)) =
        Some (calculateOrbitalVelocity (heap s r) (heap s sun_ref))"
    by (simp add: refresh_selected_found)
  assume "held = Some r \<or> isLocked (heap s r)"
  with h show "velocity_rows (refresh_selected held s) = Some (Text ''0.00'', Text ''0.00'')"
    by (auto simp add: velocity_rows_def refresh_selected_def Let_def radial_value_def
        tangential_value_def)
qed

theorem orbital_velocity_ignores_hold_and_panel_shows_zero_witness:
  "calculateOrbitalVelocity example_locked example_sun = \<lparr>radial = Fin 0, tangential = Fin 0\<rparr> \<and>
   calculateOrbitalVelocity example_planet example_sun = \<lparr>radial = Fin 3, tangential = Fin 4\<rparr> \<and>
   isHoldingPlanet (refresh_selected (Some 1) example_near_world) \<and>
   map_option sel_orbitalVelocity (selectedBody (refresh_selected (Some 1) example_near_world)) =
     Some \<lparr>radial = Fin 3, tangential = Fin 4\<rparr> \<and>
   velocity_rows (refresh_selected (Some 1) example_near_world) = Some (Text ''0.00'', Text ''0.00'')"
proof -
  have w: "find_sun example_near_world = Some 0 \<and>
      selectedBody example_near_world = Some example_near_selection \<and>
      find_by_id example_near_world (sel_id example_near_selection) = Some 1"
    by (simp add: find_sun_def find_by_id_def example_near_world_def example_world_def
        example_near_selection_def example_sun_def example_planet_def)
  have hp: "heap example_near_world (Suc 0) = example_planet" "heap example_near_world 0 = example_sun"
    by (simp_all add: example_near_world_def example_world_def)
  have f: "\<not> isLocked example_planet \<and> \<not> isStatic example_planet"
    "isLocked example_locked \<or> isStatic example_locked"
    by (simp_all add: example_planet_def example_locked_def)
  have c: "calculateOrbitalVelocity example_planet example_sun = \<lparr>radial = Fin 3, tangential = Fin 4\<rparr>"
    using orbital_velocity_ignores_hold_and_panel_shows_zero
            [where b = example_planet and sun = example_sun] f(1)
    by (simp add: distance_from_def example_planet_def example_sun_def sqrt_10000)
  show ?thesis
    using orbital_velocity_ignores_hold_and_panel_shows_zero
            [where b = example_locked and sun = example_sun and s = example_near_world
               and sun_ref = 0 and sel = example_near_selection and r = 1 and held = "Some 1"]
          w f(2) c
    by (auto simp add: hp)
qed

text \<open>
  The planet near the sun is selected and held by the pointer: the timer records that it is
  held, and stores a diagnostic that is not zero.
\<close>

theorem held_body_orbital_velocity_counterexample:
  "isHoldingPlanet
     (refresh_selected (Some 1) (example_world\<lparr>selectedBody := Some (example_selection\<lparr>sel_id := 1\<rparr>)\<rparr>)) \<and>
   map_option sel_orbitalVelocity
     (selectedBody
       (refresh_selected (Some 1) (example_world\<lparr>selectedBody := Some (example_selection\<lparr>sel_id := 1\<rparr>)\<rparr>))) =
     Some \<lparr>radial = Fin 3, tangential = Fin 4\<rparr>"
  by (simp add: refresh_selected_def example_world_def find_sun_def find_by_id_def
      example_sun_def example_planet_def example_locked_def example_far_def Let_def
      calculateOrbitalVelocity_def sqrt_10000)

section \<open>Gravity at distance zero\<close>




section \<open>Size edits and the mass\<close>

lemma set_locked_frame [simp]:
  "mass (set_locked l b) = mass b"
  "density (set_locked l b) = density b"
  "area (set_locked l b) = area b"
  "circleRadius (set_locked l b) = circleRadius b"
  by (simp_all add: set_locked_def Body_setVelocity_def Let_def split: option.splits)

lemma mass_Body_scale: "mass (Body_scale b sx sy) = density b * (area b * \<bar>sx * sy\<bar>)"
  by (simp add: Body_scale_def Body_setMass_def Let_def split: option.splits)

lemma mass_commit_edit:
  "mass (commit_edit sel ev b) =
     (if sel_isSun sel then edit_mass ev / area b else density b) *
     (area b * \<bar>(edit_size ev / Fin 2 / old_radius b) * (edit_size ev / Fin 2 / old_radius b)\<bar>)"
  by (simp add: commit_edit_def Let_def mass_Body_scale Body_setMass_def old_radius_def)

lemma circleRadius_commit_edit:
  "circleRadius (commit_edit sel ev b) = Some (edit_size ev / Fin 2)"
  by (simp add: commit_edit_def Let_def Body_setMass_def)

lemma mass_resize_keeping_mass:
  "mass (resize_keeping_mass newSize b) = mass b \<and>
   inverseMass (resize_keeping_mass newSize b) = inverseMass b \<and>
   circleRadius (resize_keeping_mass newSize b) = Some (newSize / Fin 2)"
  by (simp add: resize_keeping_mass_def Let_def Body_setMass_def)

lemma circleRadius_setMass [simp]: "circleRadius (Body_setMass b m) = circleRadius b"
  by (simp add: Body_setMass_def)

lemma mass_update_selected_body:
  assumes "\<And>b. mass (f b) = mass b"
  shows "mass (heap (update_selected_body f sel s) r) = mass (heap s r)"
  by (simp add: update_selected_body_def assms split: option.splits)

text \<open>
  The variant with live edits keeps the two apart: its size handler leaves the mass of every
  body as it was, and its mass handler leaves every radius as it was.
\<close>

lemma size_onChange_keeps_mass:
  "mass (heap (size_onChange newSize s) r) = mass (heap s r)"
  by (simp add: size_onChange_def mass_update_selected_body mass_resize_keeping_mass
      split: option.splits)

lemma mass_onChange_keeps_radius:
  "circleRadius (heap (mass_onChange m s) r) = circleRadius (heap s r)"
  by (simp add: mass_onChange_def update_selected_body_def split: option.splits)

text \<open>
  Claim C2 on the \<open>Done\<close> handler. The planet near the sun has radius 10 and mass 20; the
  form is committed with size 40 and every other field as it was. The shape is scaled by 2,
  which makes the mass 80, and the mass that the handler then restores is this new one.
\<close>

theorem done_click_resize_changes_mass:
  "mass (heap (done_click (example_world
           \<lparr>selectedBody := Some example_near_selection, isEditing := True,
            editingValues := Some
              \<lparr>edit_name = ''Planet 1'', edit_mass = Fin 20, edit_size = Fin 40,
               edit_color = ''#336699'', edit_isLocked = False\<rparr>\<rparr>)) 1) = Fin 80"
  by (simp add: done_click_def example_world_def example_near_selection_def find_by_id_def
      example_sun_def example_planet_def example_locked_def example_far_def Let_def
      mass_commit_edit old_radius_def)

section \<open>Fields that are not valid\<close>

text \<open>
  Claim C8, as the code has it. The form does not validate its fields: a commit applies them
  as they were parsed. The radius of the body becomes half the submitted size, whatever the
  size is, so \<open>NaN\<close> for a size field that is no number; and a mass field that is no
  number makes the mass of the sun \<open>NaN\<close>.
\<close>

theorem commit_applies_unvalidated_fields:
  "circleRadius (commit_edit sel ev b) = Some (edit_size ev / Fin 2) \<and>
   (edit_size ev = NaN \<longrightarrow> circleRadius (commit_edit sel ev b) = Some NaN) \<and>
   (sel_isSun sel \<and> edit_mass ev = NaN \<longrightarrow> mass (commit_edit sel ev b) = NaN) \<and>
   (editingValues s = Some ev \<and> selectedBody s = Some sel \<and>
    find_by_id s (sel_id sel) = Some r \<longrightarrow>
      circleRadius (heap (done_click s) r) = Some (edit_size ev / Fin 2) \<and>
      (sel_isSun sel \<and> edit_mass ev = NaN \<longrightarrow> mass (heap (done_click s) r) = NaN))"
  by (simp add: circleRadius_commit_edit mass_commit_edit done_click_def Let_def)

theorem commit_applies_unvalidated_fields_witness:
  "circleRadius (heap (done_click (example_world
       \<lparr>selectedBody := Some example_sun_selection, isEditing := True,
        editingValues := Some
          \<lparr>edit_name = ''Sun'', edit_mass = NaN, edit_size = NaN,
           edit_color = ''#FFD700'', edit_isLocked = False\<rparr>\<rparr>)) 0) = Some NaN \<and>
   mass (heap (done_click (example_world
       \<lparr>selectedBody := Some example_sun_selection, isEditing := True,
        editingValues := Some
          \<lparr>edit_name = ''Sun'', edit_mass = NaN, edit_size = NaN,
           edit_color = ''#FFD700'', edit_isLocked = False\<rparr>\<rparr>)) 0) = NaN"
proof -
  let ?ev = "\<lparr>edit_name = ''Sun'', edit_mass = NaN, edit_size = NaN,
           edit_color = ''#FFD700'', edit_isLocked = False\<rparr>"
  let ?s = "example_world\<lparr>selectedBody := Some example_sun_selection, isEditing := True,
        editingValues := Some ?ev\<rparr>"
  have w: "editingValues ?s = Some ?ev \<and> selectedBody ?s = Some example_sun_selection \<and>
      find_by_id ?s (sel_id example_sun_selection) = Some 0"
    by (simp add: find_by_id_def example_world_def example_sun_selection_def example_sun_def)
  have n: "sel_isSun example_sun_selection \<and> edit_mass ?ev = NaN"
    by (simp add: example_sun_selection_def)
  show ?thesis
    using commit_applies_unvalidated_fields
            [where s = ?s and ev = ?ev and sel = example_sun_selection and r = 0] w n
    by simp
qed

text \<open>
  The sun is selected, the mass field is emptied (\<open>parseFloat\<close> gives \<open>NaN\<close>) and the
  form is committed: the sun of the world has mass \<open>NaN\<close>.
\<close>

theorem invalid_mass_edit_counterexample:
  "mass (heap (done_click (example_world
           \<lparr>selectedBody := Some example_sun_selection, isEditing := True,
            editingValues := Some
              \<lparr>edit_name = ''Sun'', edit_mass = NaN, edit_size = Fin 80,
               edit_color = ''#FFD700'', edit_isLocked = False\<rparr>\<rparr>)) 0) = NaN \<and>
   mass (heap example_world 0) = Fin 10000"
  by (simp add: done_click_def example_world_def example_sun_selection_def find_by_id_def
      example_sun_def example_planet_def example_locked_def example_far_def Let_def
      mass_commit_edit old_radius_def)

section \<open>Collision with the sun\<close>

lemma heap_collision_start_pair [simp]: "heap (collision_start_pair selRef p s) = heap s"
  by (simp add: collision_start_pair_def Let_def clear_if_selected_def World_remove_def
      split: option.splits)

lemma bodies_collision_start_pair:
  "bodies (collision_start_pair selRef p s) =
     (case victim (heap s) p of None \<Rightarrow> bodies s | Some x \<Rightarrow> remove1 x (bodies s))"
  by (simp add: collision_start_pair_def Let_def clear_if_selected_def World_remove_def
      victim_def split: option.splits)

lemma selectedBody_collision_start_pair:
  "selectedBody (collision_start_pair selRef p s) =
     (case victim (heap s) p of
        None \<Rightarrow> selectedBody s
      | Some x \<Rightarrow> if is_selected selRef (heap s x) then None else selectedBody s)"
  by (simp add: collision_start_pair_def Let_def clear_if_selected_def World_remove_def
      victim_def is_selected_def split: option.splits)

lemma heap_fold_collision_start_pair [simp]:
  "heap (fold (collision_start_pair selRef) ps s) = heap s"
  by (induction ps arbitrary: s) simp_all

lemma bodies_fold_collision_start_pair:
  assumes "distinct (bodies s)"
  shows "distinct (bodies (fold (collision_start_pair selRef) ps s)) \<and>
         set (bodies (fold (collision_start_pair selRef) ps s)) =
           set (bodies s) - {x. \<exists>p \<in> set ps. victim (heap s) p = Some x}"
  using assms
proof (induction ps arbitrary: s)
  case Nil
  then show ?case by simp
next
  case (Cons p ps)
  let ?s = "collision_start_pair selRef p s"
  have d: "distinct (bodies ?s)"
    using Cons.prems by (simp add: bodies_collision_start_pair split: option.splits)
  have b: "set (bodies ?s) = set (bodies s) - {x. victim (heap s) p = Some x}"
    using Cons.prems by (auto simp add: bodies_collision_start_pair split: option.splits)
  show ?case
    using Cons.IH [OF d] by (auto simp add: b)
qed

lemma selectedBody_fold_collision_start_pair:
  "selectedBody (fold (collision_start_pair selRef) ps s) =
     (if \<exists>p \<in> set ps. \<exists>x. victim (heap s) p = Some x \<and> is_selected selRef (heap s x) then None
      else selectedBody s)"
proof (induction ps arbitrary: s)
  case Nil
  then show ?case by simp
next
  case (Cons p ps)
  show ?case
    by (auto simp add: Cons.IH selectedBody_collision_start_pair split: option.splits)
qed

text \<open>
  Claim C6. When the engine reports the start of a collision between the sun and a planet,
  in either order of the pair, the handler removes the planet from the world, locked or not,
  and if the planet was the selected body the selection is cleared.
\<close>

theorem sun_collision_removes_planet:
  assumes "distinct (bodies s)"
    and "(a, b) \<in> set pairs \<or> (b, a) \<in> set pairs"
    and "isSun (heap s a)" and "\<not> isSun (heap s b)"
  shows "b \<notin> set (bodies (collisionStart pairs s)) \<and>
         (is_selected (selectedBodyRef s) (heap s b) \<longrightarrow>
            selectedBody (collisionStart pairs s) = None)"
proof -
  have v: "victim (heap s) (a, b) = Some b" "victim (heap s) (b, a) = Some b"
    using assms(3,4) by (auto simp add: victim_def)
  then have ex: "\<exists>p \<in> set pairs. victim (heap s) p = Some b"
    using assms(2) by auto
  then have "b \<notin> set (bodies (collisionStart pairs s))"
    using bodies_fold_collision_start_pair [OF assms(1), of "selectedBodyRef s" pairs]
    by (simp add: collisionStart_def)
  moreover have "selectedBody (collisionStart pairs s) = None"
    if "is_selected (selectedBodyRef s) (heap s b)"
    using that ex by (auto simp add: collisionStart_def selectedBody_fold_collision_start_pair)
  ultimately show ?thesis by simp
qed

theorem sun_collision_removes_planet_witness:
  "2 \<notin> set (bodies (collisionStart [(2, 0)]
           (example_world\<lparr>heap := (heap example_world)
                (2 := example_locked\<lparr>position := (Fin 400, Fin 445)\<rparr>),
              selectedBody := Some (example_selection\<lparr>sel_id := 2\<rparr>),
              selectedBodyRef := Some (example_selection\<lparr>sel_id := 2\<rparr>)\<rparr>))) \<and>
   selectedBody (collisionStart [(2, 0)]
           (example_world\<lparr>heap := (heap example_world)
                (2 := example_locked\<lparr>position := (Fin 400, Fin 445)\<rparr>),
              selectedBody := Some (example_selection\<lparr>sel_id := 2\<rparr>),
              selectedBodyRef := Some (example_selection\<lparr>sel_id := 2\<rparr>)\<rparr>)) = None \<and>
   isLocked (example_locked\<lparr>position := (Fin 400, Fin 445)\<rparr>)"
  using sun_collision_removes_planet
          [of "example_world\<lparr>heap := (heap example_world)
                (2 := example_locked\<lparr>position := (Fin 400, Fin 445)\<rparr>),
              selectedBody := Some (example_selection\<lparr>sel_id := 2\<rparr>),
              selectedBodyRef := Some (example_selection\<lparr>sel_id := 2\<rparr>)\<rparr>" 0 2 "[(2, 0)]"]
  by (simp add: example_world_def example_sun_def example_locked_def example_planet_def
      is_selected_def)

section \<open>The velocity of a locked body\<close>

lemma collision_active_pair_at:
  "collision_active_pair p h r =
     (if (r = fst p \<or> r = snd p) \<and> isLocked (h r) then Body_setVelocity (h r) (Fin 0, Fin 0)
      else h r)"
  by (auto simp add: collision_active_pair_def keep_still_def Body_setVelocity_def)

lemma fold_collision_active_pair_at:
  "fold collision_active_pair ps h r =
     (if (\<exists>p \<in> set ps. r = fst p \<or> r = snd p) \<and> isLocked (h r)
      then Body_setVelocity (h r) (Fin 0, Fin 0) else h r)"
proof (induction ps arbitrary: h)
  case Nil
  then show ?case by simp
next
  case (Cons p ps)
  have "fold collision_active_pair (p # ps) h r =
          fold collision_active_pair ps (collision_active_pair p h) r"
    by simp
  also have "\<dots> = (if (\<exists>q \<in> set ps. r = fst q \<or> r = snd q) \<and> isLocked (collision_active_pair p h r)
                    then Body_setVelocity (collision_active_pair p h r) (Fin 0, Fin 0)
                    else collision_active_pair p h r)"
    by (rule Cons.IH)
  also have "\<dots> = (if (\<exists>q \<in> set (p # ps). r = fst q \<or> r = snd q) \<and> isLocked (h r)
                    then Body_setVelocity (h r) (Fin 0, Fin 0) else h r)"
    by (auto simp add: collision_active_pair_at Body_setVelocity_def)
  finally show ?case .
qed

lemma heap_Engine_update:
  "heap (Engine_update w s) =
     fold collision_active_pair (active w)
       (resolve w (heap (collisionStart (started w)
          (beforeUpdate (pointer_body w) s\<lparr>heap := integrate w (heap (beforeUpdate (pointer_body w) s))\<rparr>))))"
  by (simp add: Engine_update_def Let_def collisionActive_def)

lemma isLocked_heap_beforeUpdate:
  "isLocked (heap (beforeUpdate um s) r) = isLocked (heap s r)"
proof (cases "find_sun s")
  case None
  then show ?thesis by (simp add: beforeUpdate_def)
next
  case (Some sun)
  show ?thesis
    by (simp add: heap_beforeUpdate [OF Some] fold_keep_still_at fold_apply_gravity_field)
qed

lemma heap_collisionStart [simp]: "heap (collisionStart ps s) = heap s"
  by (simp add: collisionStart_def)

text \<open>
  What the two handlers do for a locked body. At the start of a step, the \<open>beforeUpdate\<close> handler of a
  world with a sun makes the velocity of every locked body of the world zero. At the end of
  the step, the \<open>collisionActive\<close> handler does so for the locked bodies of the pairs in
  sustained contact: such a body has velocity zero when the update ends, whatever the engine
  did to it.
\<close>

lemma locked_velocity_reset_before_update_and_in_contact:
  "(find_sun s = Some sun \<and> r \<in> set (bodies s) \<and> isLocked (heap s r) \<longrightarrow>
      velocity (heap (beforeUpdate um s) r) = (Fin 0, Fin 0)) \<and>
   (p \<in> set (active w) \<and> (r = fst p \<or> r = snd p) \<and> isLocked (heap (Engine_update w s) r) \<longrightarrow>
      velocity (heap (Engine_update w s) r) = (Fin 0, Fin 0))"
proof (intro conjI impI)
  assume h: "find_sun s = Some sun \<and> r \<in> set (bodies s) \<and> isLocked (heap s r)"
  then have "isLocked (fold (apply_gravity sun) (bodies s) (heap s) r)"
    by (simp add: fold_apply_gravity_field)
  then show "velocity (heap (beforeUpdate um s) r) = (Fin 0, Fin 0)"
    using h by (simp add: heap_beforeUpdate fold_keep_still_at)
next
  assume h: "p \<in> set (active w) \<and> (r = fst p \<or> r = snd p) \<and> isLocked (heap (Engine_update w s) r)"
  then have ex: "\<exists>q \<in> set (active w). r = fst q \<or> r = snd q"
    by blast
  show "velocity (heap (Engine_update w s) r) = (Fin 0, Fin 0)"
    using h ex unfolding heap_Engine_update fold_collision_active_pair_at
    by (simp split: if_splits)
qed

lemma locked_velocity_reset_before_update_and_in_contact_example:
  "velocity (heap (beforeUpdate None
      (example_contact_world\<lparr>heap := (heap example_contact_world)
         (2 := example_locked\<lparr>velocity := (Fin 1, Fin 0)\<rparr>)\<rparr>)) 2) = (Fin 0, Fin 0) \<and>
   velocity (heap (Engine_update (example_first_contact\<lparr>started := [], active := [(1, 2)]\<rparr>)
      example_contact_world) 2) = (Fin 0, Fin 0)"
proof -
  let ?s = "example_contact_world\<lparr>heap := (heap example_contact_world)
              (2 := example_locked\<lparr>velocity := (Fin 1, Fin 0)\<rparr>)\<rparr>"
  let ?w = "example_first_contact\<lparr>started := [], active := [(1, 2)]\<rparr>"
  have a: "find_sun ?s = Some 0 \<and> 2 \<in> set (bodies ?s) \<and> isLocked (heap ?s 2)"
    by (simp add: find_sun_def example_contact_world_def example_sun_def example_locked_def)
  have "isLocked (heap example_contact_world 2)"
    by (simp add: example_contact_world_def example_locked_def)
  then have "isLocked (heap (Engine_update ?w example_contact_world) 2)"
    by (simp add: heap_Engine_update collision_active_pair_at isLocked_heap_beforeUpdate
        example_first_contact_def)
  then have b: "(1, 2) \<in> set (active ?w) \<and> (2 = fst (1 :: nat, 2 :: nat) \<or> 2 = snd (1 :: nat, 2 :: nat)) \<and>
      isLocked (heap (Engine_update ?w example_contact_world) 2)"
    by simp
  show ?thesis
    using locked_velocity_reset_before_update_and_in_contact
            [where s = ?s and sun = 0 and r = 2 and um = None and p = "(1, 2)" and w = ?w] a
          locked_velocity_reset_before_update_and_in_contact
            [where s = example_contact_world and sun = 0 and r = 2 and um = None
               and p = "(1, 2)" and w = ?w] b
    by blast
qed

text \<open>
  Claim C9. Every locked planet should have velocity zero when a simulation step ends, and
  the handlers say that they keep it so. In the update in which a planet first touches a
  locked planet they do not: the pair is new, so it is reported to \<open>collisionStart\<close>,
  whose handler resets nothing; the handler of \<open>collisionActive\<close> does not see it; and
  the locked planet ends the update with the velocity that the resolution of the collision
  gave it.
\<close>

theorem locked_planet_moves_at_end_of_first_contact_update:
  "isLocked (heap (Engine_update example_first_contact example_contact_world) 2) \<and>
   velocity (heap (Engine_update example_first_contact example_contact_world) 2) = (Fin 1, Fin 0)"
  by (simp add: heap_Engine_update fold_collision_active_pair_at isLocked_heap_beforeUpdate
      example_first_contact_def example_contact_world_def example_locked_def example_planet_def)

end
